theory Spec2Isabelle
  imports Complex_Main "HOL-Library.Sublist"
begin

section \<open>Python values used by \<open>run-mythril.py\<close>\<close>

text \<open>
  A Python \<open>str\<close> is a sequence of Unicode code points, so it is modelled as a list of
  natural numbers. ASCII literals of the source are written \<open>py ''...''\<close>; the literals
  that hold CJK text or emoji are spelled out as code points below.
\<close>

type_synonym pystr = "nat list"

definition py :: "string \<Rightarrow> pystr" where
  "py cs = map of_char cs"

text \<open>\<open>needle in haystack\<close> on strings: some position of the haystack starts with the needle.\<close>

fun str_contains :: "pystr \<Rightarrow> pystr \<Rightarrow> bool" where
  "str_contains needle [] = (needle = [])"
| "str_contains needle (c # cs) = (prefix needle (c # cs) \<or> str_contains needle cs)"

text \<open>\<open>sep.join(xs)\<close>.\<close>

fun str_join :: "pystr \<Rightarrow> pystr list \<Rightarrow> pystr" where
  "str_join sep [] = []"
| "str_join sep [x] = x"
| "str_join sep (x # y # ys) = x @ sep @ str_join sep (y # ys)"

text \<open>The format specification \<open>:30s\<close>: left-justified, padded with spaces, never cut.\<close>

definition ljust :: "nat \<Rightarrow> pystr \<Rightarrow> pystr" where
  "ljust n s = s @ replicate (n - length s) 32"

text \<open>\<open>'=' * 60\<close>.\<close>

definition border :: pystr where
  "border = replicate 60 61"

text \<open>
  The values \<open>json.load\<close> can return. A float is kept only as far as its truth value
  needs: mantissa and exponent of a finite one, the infinities and NaN.
\<close>

datatype pyfloat = Finite int int | Infinity bool | NaN

datatype json =
    JNull
  | JBool bool
  | JInt int
  | JFloat pyfloat
  | JString pystr
  | JList "json list"
  | JObject "(pystr \<times> json) list"

text \<open>Python truth value testing, as \<open>not x\<close> and \<open>x and ...\<close> apply it.\<close>

fun truthy :: "json \<Rightarrow> bool" where
  "truthy JNull = False"
| "truthy (JBool b) = b"
| "truthy (JInt n) = (n \<noteq> 0)"
| "truthy (JFloat (Finite m e)) = (m \<noteq> 0)"
| "truthy (JFloat (Infinity s)) = True"
| "truthy (JFloat NaN) = True"
| "truthy (JString s) = (s \<noteq> [])"
| "truthy (JList xs) = (xs \<noteq> [])"
| "truthy (JObject kvs) = (kvs \<noteq> [])"

text \<open>
  \<open>d.get(key, default)\<close> on the dict loaded from a JSON object; the list holds the
  items of the dict, whose keys are distinct.
\<close>

definition dict_get :: "(pystr \<times> json) list \<Rightarrow> pystr \<Rightarrow> json \<Rightarrow> json" where
  "dict_get d key dflt = (case map_of d key of None \<Rightarrow> dflt | Some v \<Rightarrow> v)"

text \<open>The text of a \<open>str\<close> value (used on the three literal heads of the command line).\<close>

fun json_str :: "json \<Rightarrow> pystr" where
  "json_str (JString s) = s"
| "json_str _ = []"

section \<open>The string literals of the source\<close>

text \<open>Line 24: the label in front of the contract name.\<close>

definition msg_analyzing :: pystr where
  "msg_analyzing = [0x5206, 0x6790, 0x5408, 0x7EA6] @ py '': ''"

text \<open>Line 31.\<close>

definition msg_no_artifact :: pystr where
  "msg_no_artifact = [0x274C] @ py '' '' @ [0x672A, 0x627E, 0x5230] @ py ''artifact: ''"

text \<open>Line 39.\<close>

definition msg_read_failed :: pystr where
  "msg_read_failed =
     [0x274C] @ py '' '' @ [0x8BFB, 0x53D6] @ py ''artifact'' @ [0x5931, 0x8D25] @ py '': ''"

text \<open>Line 47.\<close>

definition msg_no_bytecode :: pystr where
  "msg_no_bytecode = [0x274C] @ py '' '' @ [0x672A, 0x627E, 0x5230] @ py ''bytecode''"

text \<open>Line 67.\<close>

definition msg_running :: pystr where
  "msg_running = [0x6267, 0x884C, 0x547D, 0x4EE4] @ py '': ''"

text \<open>Line 80, with both newlines of the literal.\<close>

definition msg_issues_found :: pystr where
  "msg_issues_found =
     [10, 0x26A0, 0xFE0F] @ py ''  '' @ [0x53D1, 0x73B0, 0x5B89, 0x5168, 0x95EE, 0x9898]
       @ py '':'' @ [10]"

text \<open>Line 84.\<close>

definition msg_no_issues :: pystr where
  "msg_no_issues =
     [0x2705] @ py '' '' @ [0x672A, 0x53D1, 0x73B0, 0x5B89, 0x5168, 0x95EE, 0x9898]"

text \<open>Line 87, up to the interpolated output.\<close>

definition msg_finished :: pystr where
  "msg_finished =
     [0x26A0, 0xFE0F] @ py ''  '' @ [0x5206, 0x6790, 0x5B8C, 0x6210, 0xFF0C, 0x8F93, 0x51FA]
       @ py '':'' @ [10]"

text \<open>Line 91.\<close>

definition msg_timeout :: pystr where
  "msg_timeout =
     [0x23F1, 0xFE0F] @ py ''  '' @ [0x5206, 0x6790, 0x8D85, 0x65F6, 0xFF08] @ py ''90''
       @ [0x79D2, 0xFF09]"

text \<open>Lines 94 and 95: the message for a missing binary and the remediation hint.\<close>

definition msg_not_installed :: pystr where
  "msg_not_installed =
     [0x274C] @ py '' Mythril'' @ [0x672A, 0x5B89, 0x88C5, 0x6216, 0x672A, 0x5728]
       @ py ''PATH'' @ [0x4E2D]"

definition msg_install_hint :: pystr where
  "msg_install_hint = [0x8BF7, 0x8FD0, 0x884C] @ py '': pip install mythril''"

text \<open>Line 98, up to the interpolated exception.\<close>

definition msg_run_error :: pystr where
  "msg_run_error =
     [0x274C] @ py '' '' @ [0x8FD0, 0x884C] @ py ''Mythril'' @ [0x65F6, 0x51FA, 0x9519]
       @ py '': ''"

text \<open>Lines 108 and 119: the titles of the run and of the summary.\<close>

definition msg_title :: pystr where
  "msg_title = py ''MoeGirls Project - Mythril '' @ [0x5B89, 0x5168, 0x5206, 0x6790]"

definition msg_summary :: pystr where
  "msg_summary = [0x5206, 0x6790, 0x6458, 0x8981]"

text \<open>Lines 124 to 132: the five status labels of the summary.\<close>

definition status_failed :: pystr where
  "status_failed = [0x274C] @ py '' '' @ [0x5931, 0x8D25]"

definition status_timeout :: pystr where
  "status_timeout = [0x23F1, 0xFE0F] @ py ''  '' @ [0x8D85, 0x65F6]"

definition status_safe :: pystr where
  "status_safe = [0x2705] @ py '' '' @ [0x5B89, 0x5168]"

definition status_issues :: pystr where
  "status_issues = [0x26A0, 0xFE0F] @ py ''  '' @ [0x53D1, 0x73B0, 0x95EE, 0x9898]"

definition status_review :: pystr where
  "status_review =
     [0x26A0, 0xFE0F] @ py ''  '' @ [0x9700, 0x8981, 0x4EBA, 0x5DE5, 0x5BA1, 0x67E5]"

text \<open>Lines 137 to 150: the report file, its header, the label of a section, the placeholder.\<close>

definition output_file :: pystr where
  "output_file = py ''mythril-analysis-results.txt''"

definition report_title :: pystr where
  "report_title =
     py ''MoeGirls Project - Mythril '' @ [0x5B89, 0x5168, 0x5206, 0x6790, 0x7ED3, 0x679C]
       @ [10]"

definition report_label :: pystr where
  "report_label = [0x5408, 0x7EA6] @ py '': ''"

definition report_failed :: pystr where
  "report_failed = [0x5206, 0x6790, 0x5931, 0x8D25, 0x6216, 0x672A, 0x5B8C, 0x6210, 10]"

text \<open>Line 154, up to the interpolated file name.\<close>

definition msg_saved :: pystr where
  "msg_saved =
     [10, 0x2705] @ py '' '' @ [0x5B8C, 0x6574, 0x62A5, 0x544A, 0x5DF2, 0x4FDD, 0x5B58, 0x5230]
       @ py '': ''"

text \<open>Lines 14 to 19.\<close>

definition CONTRACTS :: "pystr list" where
  "CONTRACTS =
     [py ''MOEToken'', py ''DepositContract'', py ''VestingWalletFactory'',
      py ''StageBasedVestingWallet'']"

section \<open>The world the script runs in\<close>

text \<open>
  The script reads and writes files, prints to the console and starts child processes.
  The state passed through the model holds the files by path (a text file is its
  content), the arguments of every \<open>print\<close> call in order (the newline that \<open>print\<close>
  appends is left implicit), and what happened at the process boundary: every call of
  \<open>subprocess.run\<close> with its command line, and whether a child was started, exited
  with a return code or was killed. Printing, writing the report and removing the scratch
  file are taken to succeed, and a child process is taken to leave the files of the script
  alone.
\<close>

datatype proc_event = Invoked "json list" | Started | Exited int | Killed

record world =
  fs :: "pystr \<rightharpoonup> pystr"
  console :: "pystr list"
  procs :: "proc_event list"

text \<open>
  What becomes of one call \<open>subprocess.run(cmd, ...)\<close> is decided outside the script:
  the executable may be missing, the launch may fail in another way, the child may exit
  after some seconds with its two output streams and its return code, it may never exit,
  or it may exit after some seconds with a return code and an output that cannot be
  decoded as text.
\<close>

datatype behaviour =
    NoSuchBinary
  | LaunchError pystr
  | ChildExits real pystr pystr int
  | ChildHangs
  | DecodeFails real int pystr

text \<open>
  What the script does not contain: \<open>open\<close> followed by \<open>json.load\<close> on an existing
  file (the text of the exception, or the value loaded), the fate of a child process,
  which may depend on everything that happened before, and whether the scratch file at
  a path can be opened for writing.
\<close>

record env =
  json_load :: "pystr \<Rightarrow> pystr \<Rightarrow> pystr + json"
  child :: "world \<Rightarrow> json list \<Rightarrow> behaviour"
  creatable :: "pystr \<Rightarrow> bool"

definition print :: "pystr \<Rightarrow> world \<Rightarrow> world" where
  "print s w = w\<lparr>console := console w @ [s]\<rparr>"

text \<open>\<open>with open(path, 'w') as f: f.write(text)\<close>: the file is created or truncated.\<close>

definition write_file :: "pystr \<Rightarrow> pystr \<Rightarrow> world \<Rightarrow> world" where
  "write_file path text w = w\<lparr>fs := (fs w)(path \<mapsto> text)\<rparr>"

text \<open>\<open>os.remove(path)\<close>.\<close>

definition remove_file :: "pystr \<Rightarrow> world \<Rightarrow> world" where
  "remove_file path w = w\<lparr>fs := (fs w)(path := None)\<rparr>"

text \<open>
  \<open>subprocess.run(cmd, capture_output=True, text=True, timeout=t)\<close>, after the
  documentation of the Python library: nothing is started when the executable is missing
  or the launch fails; a child that is still running when the timeout expires is killed
  before \<open>TimeoutExpired\<close> is raised; the output is decoded only after the child has
  exited, so that a failure to decode it finds the child gone with its return code. The
  child is asked for its fate in the world in which it is called.
\<close>

datatype run_error = TimeoutExpired | FileNotFoundError | OtherException pystr

record completed =
  stdout :: pystr
  stderr :: pystr
  returncode :: int

definition subprocess_run ::
  "env \<Rightarrow> json list \<Rightarrow> real \<Rightarrow> world \<Rightarrow> world \<times> (run_error + completed)" where
  "subprocess_run e cmd timeout w =
     (case child e w cmd of
        NoSuchBinary \<Rightarrow> (w\<lparr>procs := procs w @ [Invoked cmd]\<rparr>, Inl FileNotFoundError)
      | LaunchError msg \<Rightarrow>
          (w\<lparr>procs := procs w @ [Invoked cmd]\<rparr>, Inl (OtherException msg))
      | ChildExits seconds out err rc \<Rightarrow>
          (if seconds \<le> timeout
           then (w\<lparr>procs := procs w @ [Invoked cmd, Started, Exited rc]\<rparr>,
                 Inr \<lparr>stdout = out, stderr = err, returncode = rc\<rparr>)
           else (w\<lparr>procs := procs w @ [Invoked cmd, Started, Killed]\<rparr>,
                 Inl TimeoutExpired))
      | ChildHangs \<Rightarrow>
          (w\<lparr>procs := procs w @ [Invoked cmd, Started, Killed]\<rparr>, Inl TimeoutExpired)
      | DecodeFails seconds rc msg \<Rightarrow>
          (if seconds \<le> timeout
           then (w\<lparr>procs := procs w @ [Invoked cmd, Started, Exited rc]\<rparr>,
                 Inl (OtherException msg))
           else (w\<lparr>procs := procs w @ [Invoked cmd, Started, Killed]\<rparr>,
                 Inl TimeoutExpired)))"

section \<open>\<open>analyze_contract\<close>\<close>

text \<open>Line 28 and line 51: the two paths built from the contract name.\<close>

definition artifact_path :: "pystr \<Rightarrow> pystr" where
  "artifact_path contract_name =
     py ''artifacts/contracts/'' @ contract_name @ py ''.sol/'' @ contract_name @ py ''.json''"

definition temp_file :: "pystr \<Rightarrow> pystr" where
  "temp_file contract_name = py ''/tmp/'' @ contract_name @ py ''_bytecode.bin''"

text \<open>Lines 58 to 65: the command line, the selected bytecode in fourth place.\<close>

definition build_cmd :: "json \<Rightarrow> json \<Rightarrow> json list" where
  "build_cmd bytecode deployed_bytecode =
     [JString (py ''myth''),
      JString (py ''analyze''),
      JString (py ''--bin-runtime''),
      (if truthy deployed_bytecode \<and> deployed_bytecode \<noteq> JString (py ''0x'')
       then deployed_bytecode else bytecode),
      JString (py ''--execution-timeout''), JString (py ''60''),
      JString (py ''--max-depth''), JString (py ''12''),
      JString (py ''--solver-timeout''), JString (py ''10000'')]"

text \<open>Line 67: the announcement of the command, of which only the first three words are shown.\<close>

definition announce :: "json list \<Rightarrow> world \<Rightarrow> world" where
  "announce cmd w =
     print (msg_running @ str_join (py '' '') (map json_str (take 3 cmd)) @ py '' ...'') w"

text \<open>
  Lines 76 to 88: the three-way test on the captured output, with what each branch
  prints and returns.
\<close>

definition classify :: "pystr \<Rightarrow> int \<Rightarrow> world \<Rightarrow> world \<times> pystr option" where
  "classify output rc w =
     (if str_contains (py ''SWC'') output \<or> str_contains (py ''Issue'') output
      then (print output (print msg_issues_found w), Some output)
      else if str_contains (py ''No issues'') output \<or> rc = 0
      then (print msg_no_issues w, Some (py ''No issues found''))
      else (print (msg_finished @ output) w, Some output))"

text \<open>Lines 100 to 103: the \<open>finally\<close> clause.\<close>

definition cleanup :: "pystr \<Rightarrow> world \<Rightarrow> world" where
  "cleanup tmp w = (if fs w tmp \<noteq> None then remove_file tmp w else w)"

text \<open>
  Lines 55 to 103: the \<open>try\<close> block with its handlers, in the order of the source
  (\<open>TimeoutExpired\<close>, \<open>FileNotFoundError\<close>, any other \<open>Exception\<close>), and the
  \<open>finally\<close> clause, which runs on every way out.
\<close>

definition run_mythril ::
  "env \<Rightarrow> pystr \<Rightarrow> json \<Rightarrow> json \<Rightarrow> world \<Rightarrow> world \<times> pystr option" where
  "run_mythril e tmp bytecode deployed_bytecode w =
     (let cmd = build_cmd bytecode deployed_bytecode;
          w1 = announce cmd w;
          (w2, res) = subprocess_run e cmd 90 w1;
          (w3, result) =
            (case res of
               Inr r \<Rightarrow> classify (stdout r @ stderr r) (returncode r) w2
             | Inl TimeoutExpired \<Rightarrow> (print msg_timeout w2, Some (py ''Timeout''))
             | Inl FileNotFoundError \<Rightarrow>
                 (print msg_install_hint (print msg_not_installed w2), None)
             | Inl (OtherException msg) \<Rightarrow> (print (msg_run_error @ msg) w2, None))
      in (cleanup tmp w3, result))"

text \<open>
  The exceptions that no handler of the script covers: \<open>artifact.get\<close> on a loaded
  value that is not a dict, \<open>open\<close> of a scratch file that cannot be opened, \<open>f.write\<close>
  of a bytecode that is not a \<open>str\<close>, and \<open>f.write\<close> of a \<open>str\<close> that cannot be
  encoded.
\<close>

datatype uncaught = AttributeError | OSError | TypeError | UnicodeEncodeError

text \<open>
  A text file is written in UTF-8, which has no code for a lone surrogate (the code
  points from D800 to DFFF): \<open>f.write\<close> raises on a text that holds one.
\<close>

definition encodable :: "pystr \<Rightarrow> bool" where
  "encodable s = (\<forall>c\<in>set s. c < 0xD800 \<or> 0xDFFF < c)"

text \<open>Lines 43 and 44: the two fields, with the default \<open>''\<close> for a missing one.\<close>

definition bytecode_of :: "(pystr \<times> json) list \<Rightarrow> json" where
  "bytecode_of d = dict_get d (py ''bytecode'') (JString [])"

definition deployed_of :: "(pystr \<times> json) list \<Rightarrow> json" where
  "deployed_of d = dict_get d (py ''deployedBytecode'') (JString [])"

text \<open>
  Lines 42 to 53, then the \<open>try\<close> block: the two fields, the emptiness check, the
  scratch file. Lines 51 to 53 stand outside every \<open>try\<close>: \<open>open(temp_file, 'w')\<close>
  raises when the file cannot be opened, and otherwise creates the file before
  \<open>f.write\<close> looks at its argument, so that a failing \<open>f.write\<close> leaves an empty file
  behind.
\<close>

definition extract_and_run ::
  "env \<Rightarrow> pystr \<Rightarrow> json \<Rightarrow> world \<Rightarrow> world \<times> (uncaught + pystr option)" where
  "extract_and_run e contract_name artifact w =
     (case artifact of
        JObject d \<Rightarrow>
          (let bytecode = bytecode_of d;
               deployed_bytecode = deployed_of d
           in if \<not> truthy bytecode \<or> bytecode = JString (py ''0x'')
              then (print msg_no_bytecode w, Inr None)
              else
                (let tmp = temp_file contract_name
                 in if \<not> creatable e tmp then (w, Inl OSError)
                    else
                      (let w1 = write_file tmp [] w
                       in case bytecode of
                            JString b \<Rightarrow>
                              if encodable b
                              then (let (w2, result) =
                                          run_mythril e tmp bytecode deployed_bytecode
                                            (write_file tmp b w1)
                                    in (w2, Inr result))
                              else (w1, Inl UnicodeEncodeError)
                          | _ \<Rightarrow> (w1, Inl TypeError))))
      | _ \<Rightarrow> (w, Inl AttributeError))"

text \<open>Lines 23 to 25: the banner with the name of the contract.\<close>

definition banner :: "pystr \<Rightarrow> world \<Rightarrow> world" where
  "banner contract_name w =
     print (border @ [10]) (print (msg_analyzing @ contract_name) (print (10 # border) w))"

text \<open>Lines 21 to 40, then the rest of the function.\<close>

definition analyze_contract ::
  "env \<Rightarrow> pystr \<Rightarrow> world \<Rightarrow> world \<times> (uncaught + pystr option)" where
  "analyze_contract e contract_name w =
     (let w1 = banner contract_name w;
          path = artifact_path contract_name
      in case fs w1 path of
           None \<Rightarrow> (print (msg_no_artifact @ path) w1, Inr None)
         | Some text \<Rightarrow>
             (case json_load e path text of
                Inl msg \<Rightarrow> (print (msg_read_failed @ msg) w1, Inr None)
              | Inr artifact \<Rightarrow> extract_and_run e contract_name artifact w1))"

section \<open>\<open>main\<close>\<close>

text \<open>
  \<open>results\<close> is a dict, which keeps its keys in the order of their first insertion:
  an association list, where assigning to a key that is present replaces its value in
  place.
\<close>

type_synonym results = "(pystr \<times> pystr option) list"

fun dict_set :: "results \<Rightarrow> pystr \<Rightarrow> pystr option \<Rightarrow> results" where
  "dict_set [] k v = [(k, v)]"
| "dict_set ((k', v') # kvs) k v =
     (if k' = k then (k, v) # kvs else (k', v') # dict_set kvs k v)"

text \<open>
  Lines 113 to 115: the loop over the contracts. An exception that leaves
  \<open>analyze_contract\<close> leaves the loop, and \<open>main\<close>, too.
\<close>

fun analyze_all ::
  "env \<Rightarrow> pystr list \<Rightarrow> results \<Rightarrow> world \<Rightarrow> world \<times> (uncaught + results)" where
  "analyze_all e [] results w = (w, Inr results)"
| "analyze_all e (contract # rest) results w =
     (case analyze_contract e contract w of
        (w', Inl exn) \<Rightarrow> (w', Inl exn)
      | (w', Inr result) \<Rightarrow> analyze_all e rest (dict_set results contract result) w')"

text \<open>Lines 123 to 132: the status of one result.\<close>

definition status_of :: "pystr option \<Rightarrow> pystr" where
  "status_of result =
     (case result of
        None \<Rightarrow> status_failed
      | Some r \<Rightarrow>
          if r = py ''Timeout'' then status_timeout
          else if r = py ''No issues found'' then status_safe
          else if str_contains (py ''SWC'') r \<or> str_contains (py ''Issue'') r
          then status_issues
          else status_review)"

text \<open>Line 134: one line of the summary.\<close>

definition summary_line :: "pystr \<Rightarrow> pystr option \<Rightarrow> pystr" where
  "summary_line contract result = ljust 30 contract @ py '' '' @ status_of result"

text \<open>Lines 122 to 134: the loop that prints the summary.\<close>

fun print_summary :: "results \<Rightarrow> world \<Rightarrow> world" where
  "print_summary [] w = w"
| "print_summary ((contract, result) # rest) w =
     print_summary rest (print (summary_line contract result) w)"

text \<open>Lines 143 to 152: what the five \<open>f.write\<close> calls of one iteration write.\<close>

definition report_body :: "pystr option \<Rightarrow> pystr" where
  "report_body result =
     (case result of
        None \<Rightarrow> report_failed
      | Some r \<Rightarrow> if r \<noteq> [] then r else report_failed)"

definition report_section :: "pystr \<Rightarrow> pystr option \<Rightarrow> pystr" where
  "report_section contract result =
     ([10] @ border @ [10]) @ (report_label @ contract @ [10]) @ (border @ [10, 10])
       @ report_body result @ [10, 10]"

text \<open>Lines 139 to 152: everything written to the report between opening and closing it.\<close>

fun report_sections :: "results \<Rightarrow> pystr" where
  "report_sections [] = []"
| "report_sections ((contract, result) # rest) =
     report_section contract result @ report_sections rest"

definition report_header :: pystr where
  "report_header = report_title @ (border @ [10, 10])"

definition report_text :: "results \<Rightarrow> pystr" where
  "report_text results = report_header @ report_sections results"

text \<open>Lines 117 to 154: what \<open>main\<close> does once the loop has filled \<open>results\<close>.\<close>

definition finish :: "results \<Rightarrow> world \<Rightarrow> world" where
  "finish results w =
     (let w1 = print (border @ [10])
                 (print msg_summary (print (10 # border) w));
          w2 = print_summary results w1;
          w3 = write_file output_file (report_text results) w2
      in print (msg_saved @ output_file) w3)"

text \<open>Lines 107 to 109: the title of the run.\<close>

definition run_title :: "world \<Rightarrow> world" where
  "run_title w = print border (print msg_title (print (10 # border) w))"

text \<open>
  Lines 105 to 154. The result is the final world and the exception that ended the run,
  if one did.
\<close>

definition main :: "env \<Rightarrow> world \<Rightarrow> world \<times> uncaught option" where
  "main e w =
     (let w1 = run_title w
      in case analyze_all e CONTRACTS [] w1 of
           (w2, Inl exn) \<Rightarrow> (w2, Some exn)
         | (w2, Inr results) \<Rightarrow> (finish results w2, None))"

section \<open>Vocabulary of the properties\<close>

text \<open>
  What lines 30 to 40 find for a contract: no file (\<open>None\<close>), a file that cannot be
  loaded (the text of the exception), or the loaded value.
\<close>

definition load_artifact :: "env \<Rightarrow> pystr \<Rightarrow> world \<Rightarrow> (pystr + json) option" where
  "load_artifact e contract_name w =
     (case fs w (artifact_path contract_name) of
        None \<Rightarrow> None
      | Some text \<Rightarrow> Some (json_load e (artifact_path contract_name) text))"

text \<open>
  The scratch file of a contract takes the text \<open>b\<close> when the file can be opened and the
  text can be encoded.
\<close>

definition scratch_takes :: "env \<Rightarrow> pystr \<Rightarrow> pystr \<Rightarrow> bool" where
  "scratch_takes e contract_name b = (creatable e (temp_file contract_name) \<and> encodable b)"

text \<open>
  The descriptor of a contract conforms to the data model when, if it loads at all, it
  is a JSON object whose bytecode counts as empty or is a string that the scratch file
  takes.
\<close>

definition conforms :: "env \<Rightarrow> pystr \<Rightarrow> world \<Rightarrow> bool" where
  "conforms e contract_name w =
     (case load_artifact e contract_name w of
        Some (Inr (JObject d)) \<Rightarrow>
          (case bytecode_of d of
             JString b \<Rightarrow> b = [] \<or> b = py ''0x'' \<or> scratch_takes e contract_name b
           | v \<Rightarrow> \<not> truthy v)
      | Some (Inr other) \<Rightarrow> False
      | _ \<Rightarrow> True)"

text \<open>
  The world in which \<open>subprocess.run\<close> is called for a contract whose bytecode is the
  string \<open>b\<close>: after the banner, the scratch file and the announcement of the command.
\<close>

definition launch_world :: "pystr \<Rightarrow> pystr \<Rightarrow> json \<Rightarrow> world \<Rightarrow> world" where
  "launch_world contract_name b deployed_bytecode w =
     announce (build_cmd (JString b) deployed_bytecode)
       (write_file (temp_file contract_name) b
          (write_file (temp_file contract_name) [] (banner contract_name w)))"

text \<open>The frame of a section of the report: the two borders around the name of the contract.\<close>

definition section_frame :: "pystr \<Rightarrow> pystr" where
  "section_frame contract =
     [10] @ border @ [10] @ report_label @ contract @ [10] @ border @ [10, 10]"

text \<open>
  The failures of one contract, as the error taxonomy of the specification names them,
  and the condition under which the analysis of a contract meets each of them. Bytecode
  counts as empty when it is missing, \<open>0x\<close> or any value that Python takes for false.
  A child that is started exceeds the ceiling when it is still running after 90 seconds.
  A descriptor that is not an object, or whose bytecode the scratch file does not take,
  meets none of them: the exception it raises has no handler.
\<close>

datatype failure = NotFound | ReadError | EmptyBytecode | ToolMissing | Timeout | RuntimeError

fun exceeds :: "real \<Rightarrow> behaviour \<Rightarrow> bool" where
  "exceeds limit (ChildExits seconds out err rc) = (limit < seconds)"
| "exceeds limit (DecodeFails seconds rc msg) = (limit < seconds)"
| "exceeds limit ChildHangs = True"
| "exceeds limit _ = False"

definition fate :: "env \<Rightarrow> pystr \<Rightarrow> pystr \<Rightarrow> json \<Rightarrow> world \<Rightarrow> behaviour" where
  "fate e contract_name b deployed_bytecode w =
     child e (launch_world contract_name b deployed_bytecode w)
       (build_cmd (JString b) deployed_bytecode)"

definition failure_of :: "env \<Rightarrow> pystr \<Rightarrow> world \<Rightarrow> failure option" where
  "failure_of e contract_name w =
     (case load_artifact e contract_name w of
        None \<Rightarrow> Some NotFound
      | Some (Inl msg) \<Rightarrow> Some ReadError
      | Some (Inr (JObject d)) \<Rightarrow>
          (if \<not> truthy (bytecode_of d) \<or> bytecode_of d = JString (py ''0x'')
           then Some EmptyBytecode
           else case bytecode_of d of
                  JString b \<Rightarrow>
                    if scratch_takes e contract_name b
                    then (case fate e contract_name b (deployed_of d) w of
                            NoSuchBinary \<Rightarrow> Some ToolMissing
                          | LaunchError msg \<Rightarrow> Some RuntimeError
                          | ChildExits seconds out err rc \<Rightarrow>
                              if seconds \<le> 90 then None else Some Timeout
                          | ChildHangs \<Rightarrow> Some Timeout
                          | DecodeFails seconds rc msg \<Rightarrow>
                              if seconds \<le> 90 then Some RuntimeError else Some Timeout)
                    else None
                | _ \<Rightarrow> None)
      | Some (Inr other) \<Rightarrow> None)"

text \<open>The value that \<open>analyze_contract\<close> returns for each failure.\<close>

fun outcome_value :: "failure \<Rightarrow> pystr option" where
  "outcome_value Timeout = Some (py ''Timeout'')"
| "outcome_value _ = None"

text \<open>
  A descriptor is ready for the analyzer, that is, line 55 is reached, when it loads as a
  JSON object whose bytecode is the string \<open>b\<close>, neither empty nor \<open>0x\<close>, and the
  scratch file takes \<open>b\<close>.
\<close>

definition ready :: "env \<Rightarrow> pystr \<Rightarrow> world \<Rightarrow> (pystr \<times> json) list \<Rightarrow> pystr \<Rightarrow> bool" where
  "ready e contract_name w d b =
     (load_artifact e contract_name w = Some (Inr (JObject d)) \<and>
      bytecode_of d = JString b \<and> b \<noteq> [] \<and> b \<noteq> py ''0x'' \<and>
      scratch_takes e contract_name b)"

text \<open>
  The contracts of a list in the order of the loop, each with the world in which its
  analysis starts, and the world that the last analysis leaves.
\<close>

fun visits :: "env \<Rightarrow> pystr list \<Rightarrow> world \<Rightarrow> (pystr \<times> world) list" where
  "visits e [] w = []"
| "visits e (c # cs) w = (c, w) # visits e cs (fst (analyze_contract e c w))"

fun world_after :: "env \<Rightarrow> pystr list \<Rightarrow> world \<Rightarrow> world" where
  "world_after e [] w = w"
| "world_after e (c # cs) w = world_after e cs (fst (analyze_contract e c w))"

text \<open>The entry of the results for a contract whose analysis starts in a given world.\<close>

definition entry_of :: "env \<Rightarrow> pystr \<times> world \<Rightarrow> pystr \<times> (uncaught + pystr option)" where
  "entry_of e v = (fst v, snd (analyze_contract e (fst v) (snd v)))"

section \<open>Example worlds\<close>

text \<open>
  A world with the artifact of \<open>MOEToken\<close> on disk and nothing else, one with no file at
  all, and an environment in which every artifact loads as the object \<open>d\<close>, every child
  meets the fate \<open>beh\<close> and every scratch file can be opened.
\<close>

definition one_artifact :: world where
  "one_artifact =
     \<lparr>fs = [artifact_path (py ''MOEToken'') \<mapsto> py ''{}''], console = [], procs = []\<rparr>"

definition no_files :: world where
  "no_files = \<lparr>fs = Map.empty, console = [], procs = []\<rparr>"

definition env_with :: "(pystr \<times> json) list \<Rightarrow> behaviour \<Rightarrow> env" where
  "env_with d beh =
     \<lparr>json_load = (\<lambda>path text. Inr (JObject d)), child = (\<lambda>w cmd. beh),
      creatable = (\<lambda>path. True)\<rparr>"

text \<open>A descriptor with both fields, one with an empty runtime code, one with no code.\<close>

definition both_fields :: "(pystr \<times> json) list" where
  "both_fields =
     [(py ''bytecode'', JString (py ''0x6080'')),
      (py ''deployedBytecode'', JString (py ''0x6001''))]"

definition empty_runtime :: "(pystr \<times> json) list" where
  "empty_runtime =
     [(py ''bytecode'', JString (py ''0x6080'')), (py ''deployedBytecode'', JString [])]"

definition no_code :: "(pystr \<times> json) list" where
  "no_code = [(py ''bytecode'', JString (py ''0x''))]"

text \<open>A descriptor whose bytecode is a number, and one whose bytecode ends in a lone surrogate.\<close>

definition number_code :: "(pystr \<times> json) list" where
  "number_code = [(py ''bytecode'', JInt 123)]"

definition surrogate_code :: "(pystr \<times> json) list" where
  "surrogate_code = [(py ''bytecode'', JString (py ''0x6080'' @ [0xD800]))]"

section \<open>Basic facts\<close>

lemma str_contains_sublist: "str_contains needle hay = sublist needle hay"
  by (induction hay) (auto simp: sublist_Cons_right)

lemma print_fields [simp]:
  "fs (print s w) = fs w" "procs (print s w) = procs w" "console (print s w) = console w @ [s]"
  by (simp_all add: print_def)

lemma write_file_fields [simp]:
  "fs (write_file p t w) = (fs w)(p \<mapsto> t)" "procs (write_file p t w) = procs w"
  "console (write_file p t w) = console w"
  by (simp_all add: write_file_def)

lemma remove_file_fields [simp]:
  "fs (remove_file p w) = (fs w)(p := None)" "procs (remove_file p w) = procs w"
  "console (remove_file p w) = console w"
  by (simp_all add: remove_file_def)

lemma cleanup_fields [simp]:
  "fs (cleanup p w) = (fs w)(p := None)" "procs (cleanup p w) = procs w"
  "console (cleanup p w) = console w"
  by (auto simp: cleanup_def)

lemma announce_fields [simp]:
  "fs (announce cmd w) = fs w" "procs (announce cmd w) = procs w"
  by (simp_all add: announce_def)

lemma banner_fields [simp]:
  "fs (banner n w) = fs w" "procs (banner n w) = procs w"
  "console (banner n w) = console w @ [10 # border, msg_analyzing @ n, border @ [10]]"
  by (simp_all add: banner_def)

lemma classify_fields [simp]:
  "fs (fst (classify out rc w)) = fs w" "procs (fst (classify out rc w)) = procs w"
  by (simp_all add: classify_def)

lemma launch_world_fields [simp]:
  "fs (launch_world n b dep w) = (fs w)(temp_file n \<mapsto> b)"
  "procs (launch_world n b dep w) = procs w"
  by (simp_all add: launch_world_def)

subsection \<open>The \<open>try\<close> block, by the fate of the child\<close>

lemma run_mythril_fs [simp]: "fs (fst (run_mythril e tmp bc dep w)) = (fs w)(tmp := None)"
  by (simp add: run_mythril_def subprocess_run_def Let_def split_beta split: behaviour.splits)

lemma run_mythril_procs:
  "procs (fst (run_mythril e tmp bc dep w)) =
     procs w @ Invoked (build_cmd bc dep) #
       (case child e (announce (build_cmd bc dep) w) (build_cmd bc dep) of
          NoSuchBinary \<Rightarrow> []
        | LaunchError msg \<Rightarrow> []
        | ChildExits seconds out err rc \<Rightarrow>
            if seconds \<le> 90 then [Started, Exited rc] else [Started, Killed]
        | ChildHangs \<Rightarrow> [Started, Killed]
        | DecodeFails seconds rc msg \<Rightarrow>
            if seconds \<le> 90 then [Started, Exited rc] else [Started, Killed])"
  by (simp add: run_mythril_def subprocess_run_def Let_def split_beta split: behaviour.splits)

lemma run_mythril_result:
  "snd (run_mythril e tmp bc dep w) =
     (case child e (announce (build_cmd bc dep) w) (build_cmd bc dep) of
        NoSuchBinary \<Rightarrow> None
      | LaunchError msg \<Rightarrow> None
      | ChildExits seconds out err rc \<Rightarrow>
          if seconds \<le> 90 then snd (classify (out @ err) rc w) else Some (py ''Timeout'')
      | ChildHangs \<Rightarrow> Some (py ''Timeout'')
      | DecodeFails seconds rc msg \<Rightarrow>
          if seconds \<le> 90 then None else Some (py ''Timeout''))"
  by (simp add: run_mythril_def subprocess_run_def Let_def split_beta classify_def
      split: behaviour.splits)

subsection \<open>\<open>analyze_contract\<close>, case by case\<close>

lemma run_mythril_console:
  "console (fst (run_mythril e tmp bc dep w)) =
     console (announce (build_cmd bc dep) w) @
       (case child e (announce (build_cmd bc dep) w) (build_cmd bc dep) of
          NoSuchBinary \<Rightarrow> [msg_not_installed, msg_install_hint]
        | LaunchError msg \<Rightarrow> [msg_run_error @ msg]
        | ChildExits seconds out err rc \<Rightarrow>
            if seconds \<le> 90
            then drop (length (console w)) (console (fst (classify (out @ err) rc w)))
            else [msg_timeout]
        | ChildHangs \<Rightarrow> [msg_timeout]
        | DecodeFails seconds rc msg \<Rightarrow>
            if seconds \<le> 90 then [msg_run_error @ msg] else [msg_timeout])"
  by (simp add: run_mythril_def subprocess_run_def Let_def split_beta classify_def
      split: behaviour.splits)

lemma analyze_not_found:
  "load_artifact e n w = None \<Longrightarrow>
   analyze_contract e n w = (print (msg_no_artifact @ artifact_path n) (banner n w), Inr None)"
  by (simp add: analyze_contract_def load_artifact_def Let_def split: option.splits)

lemma analyze_read_error:
  "load_artifact e n w = Some (Inl msg) \<Longrightarrow>
   analyze_contract e n w = (print (msg_read_failed @ msg) (banner n w), Inr None)"
  by (auto simp: analyze_contract_def load_artifact_def Let_def split: option.splits)

lemma analyze_loaded:
  "load_artifact e n w = Some (Inr j) \<Longrightarrow>
   analyze_contract e n w = extract_and_run e n j (banner n w)"
  by (auto simp: analyze_contract_def load_artifact_def Let_def split: option.splits)

lemma analyze_empty:
  "load_artifact e n w = Some (Inr (JObject d)) \<Longrightarrow>
   \<not> truthy (bytecode_of d) \<or> bytecode_of d = JString (py ''0x'') \<Longrightarrow>
   analyze_contract e n w = (print msg_no_bytecode (banner n w), Inr None)"
  by (auto simp: analyze_loaded extract_and_run_def Let_def)

lemma analyze_runs:
  "load_artifact e n w = Some (Inr (JObject d)) \<Longrightarrow>
   bytecode_of d = JString b \<Longrightarrow> b \<noteq> [] \<Longrightarrow> b \<noteq> py ''0x'' \<Longrightarrow> scratch_takes e n b \<Longrightarrow>
   analyze_contract e n w =
     (fst (run_mythril e (temp_file n) (JString b) (deployed_of d)
             (write_file (temp_file n) b (write_file (temp_file n) [] (banner n w)))),
      Inr (snd (run_mythril e (temp_file n) (JString b) (deployed_of d)
             (write_file (temp_file n) b (write_file (temp_file n) [] (banner n w))))))"
  by (simp add: analyze_loaded extract_and_run_def Let_def split_beta scratch_takes_def)

lemma analyze_not_object:
  "load_artifact e n w = Some (Inr j) \<Longrightarrow> (\<forall>d. j \<noteq> JObject d) \<Longrightarrow>
   analyze_contract e n w = (banner n w, Inl AttributeError)"
  by (cases j) (simp_all add: analyze_loaded extract_and_run_def)

lemma analyze_not_creatable:
  "load_artifact e n w = Some (Inr (JObject d)) \<Longrightarrow>
   truthy (bytecode_of d) \<Longrightarrow> bytecode_of d \<noteq> JString (py ''0x'') \<Longrightarrow>
   \<not> creatable e (temp_file n) \<Longrightarrow>
   analyze_contract e n w = (banner n w, Inl OSError)"
  by (simp add: analyze_loaded extract_and_run_def Let_def)

lemma analyze_not_string:
  "load_artifact e n w = Some (Inr (JObject d)) \<Longrightarrow>
   truthy (bytecode_of d) \<Longrightarrow> (\<forall>b. bytecode_of d \<noteq> JString b) \<Longrightarrow>
   creatable e (temp_file n) \<Longrightarrow>
   analyze_contract e n w = (write_file (temp_file n) [] (banner n w), Inl TypeError)"
  by (cases "bytecode_of d") (simp_all add: analyze_loaded extract_and_run_def Let_def)

lemma analyze_not_encodable:
  "load_artifact e n w = Some (Inr (JObject d)) \<Longrightarrow>
   bytecode_of d = JString b \<Longrightarrow> b \<noteq> [] \<Longrightarrow> b \<noteq> py ''0x'' \<Longrightarrow>
   creatable e (temp_file n) \<Longrightarrow> \<not> encodable b \<Longrightarrow>
   analyze_contract e n w = (write_file (temp_file n) [] (banner n w), Inl UnicodeEncodeError)"
  by (simp add: analyze_loaded extract_and_run_def Let_def)

lemma analyze_object_returns:
  assumes "load_artifact e n w = Some (Inr (JObject d))"
  shows "(\<exists>r. snd (analyze_contract e n w) = Inr r) =
         (\<not> truthy (bytecode_of d) \<or> bytecode_of d = JString (py ''0x'')
          \<or> (\<exists>b. bytecode_of d = JString b \<and> scratch_takes e n b))"
proof (cases "\<not> truthy (bytecode_of d) \<or> bytecode_of d = JString (py ''0x'')")
  case True
  with assms show ?thesis by (auto simp: analyze_empty)
next
  case False
  then have t: "truthy (bytecode_of d)" and x: "bytecode_of d \<noteq> JString (py ''0x'')"
    by simp_all
  show ?thesis
  proof (cases "creatable e (temp_file n)")
    case False
    with assms t x show ?thesis
      by (auto simp: analyze_not_creatable scratch_takes_def)
  next
    case True
    show ?thesis
    proof (cases "\<exists>b. bytecode_of d = JString b")
      case False
      with assms t True show ?thesis by (simp add: analyze_not_string)
    next
      case True
      then obtain b where b: "bytecode_of d = JString b" by blast
      with t x have nb: "b \<noteq> []" "b \<noteq> py ''0x''" by simp_all
      show ?thesis
      proof (cases "encodable b")
        case True
        with assms b nb \<open>creatable e (temp_file n)\<close> show ?thesis
          by (simp add: analyze_runs scratch_takes_def)
      next
        case False
        with assms b nb t x \<open>creatable e (temp_file n)\<close> show ?thesis
          by (simp add: analyze_not_encodable scratch_takes_def)
      qed
    qed
  qed
qed

lemma conforms_object:
  "load_artifact e n w = Some (Inr (JObject d)) \<Longrightarrow>
   conforms e n w = (\<not> truthy (bytecode_of d) \<or> bytecode_of d = JString (py ''0x'')
          \<or> (\<exists>b. bytecode_of d = JString b \<and> scratch_takes e n b))"
  by (cases "bytecode_of d") (auto simp: conforms_def)

lemma analyze_returns_iff:
  "(\<exists>r. snd (analyze_contract e n w) = Inr r) = conforms e n w"
proof (cases "load_artifact e n w")
  case None
  then show ?thesis by (simp add: analyze_not_found conforms_def)
next
  case (Some l)
  show ?thesis
  proof (cases l)
    case (Inl msg)
    with Some show ?thesis by (simp add: analyze_read_error conforms_def)
  next
    case (Inr j)
    show ?thesis
    proof (cases "\<exists>d. j = JObject d")
      case False
      with Some Inr have "analyze_contract e n w = (banner n w, Inl AttributeError)"
        by (simp add: analyze_not_object)
      moreover from False Some Inr have "\<not> conforms e n w"
        by (cases j) (simp_all add: conforms_def)
      ultimately show ?thesis by simp
    next
      case True
      then obtain d where "load_artifact e n w = Some (Inr (JObject d))"
        using Some Inr by blast
      then show ?thesis
        using analyze_object_returns [of e n w d] conforms_object [of e n w d] by simp
    qed
  qed
qed

lemma temp_not_artifact [simp]: "temp_file a \<noteq> artifact_path b"
  by (simp add: temp_file_def artifact_path_def py_def)

lemma analyze_fs_other:
  "p \<noteq> temp_file n \<Longrightarrow> fs (fst (analyze_contract e n w)) p = fs w p"
  by (simp add: analyze_contract_def extract_and_run_def Let_def split_beta
      split: option.splits sum.splits json.splits)

subsection \<open>The loop, the summary and the report\<close>

lemma dict_set_keys:
  "map fst (dict_set rs k v) = (if k \<in> set (map fst rs) then map fst rs else map fst rs @ [k])"
  by (induction rs k v rule: dict_set.induct) auto

lemma load_artifact_same_file:
  "fs w' (artifact_path n) = fs w (artifact_path n) \<Longrightarrow> load_artifact e n w' = load_artifact e n w"
  by (simp add: load_artifact_def)

lemma analyze_keeps_artifacts:
  "fs (fst (analyze_contract e n w)) (artifact_path c) = fs w (artifact_path c)"
  using analyze_fs_other [of "artifact_path c" n e w] temp_not_artifact [of n c] by metis

lemma conforms_after_analyze:
  "conforms e c (fst (analyze_contract e n w)) = conforms e c w"
  by (simp add: conforms_def load_artifact_same_file [OF analyze_keeps_artifacts])

lemma analyze_all_keys:
  "analyze_all e cs acc w = (w', Inr rs) \<Longrightarrow> distinct (map fst acc @ cs) \<Longrightarrow>
   map fst rs = map fst acc @ cs"
proof (induction cs arbitrary: acc w)
  case Nil
  then show ?case by simp
next
  case (Cons c cs)
  obtain w1 r1 where step: "analyze_contract e c w = (w1, r1)" by (cases "analyze_contract e c w")
  show ?case
  proof (cases r1)
    case (Inl x)
    with Cons.prems step show ?thesis by simp
  next
    case (Inr r)
    with Cons.prems step have rest: "analyze_all e cs (dict_set acc c r) w1 = (w', Inr rs)"
      by simp
    from Cons.prems have keys: "map fst (dict_set acc c r) = map fst acc @ [c]"
      by (simp add: dict_set_keys)
    with Cons.prems have "distinct (map fst (dict_set acc c r) @ cs)" by simp
    from Cons.IH [OF rest this] keys show ?thesis by simp
  qed
qed

lemma analyze_all_returns:
  "\<forall>c\<in>set cs. conforms e c w \<Longrightarrow> \<exists>w' rs. analyze_all e cs acc w = (w', Inr rs)"
proof (induction cs arbitrary: acc w)
  case Nil
  then show ?case by simp
next
  case (Cons c cs)
  from Cons.prems have "conforms e c w" by simp
  then obtain r where r: "snd (analyze_contract e c w) = Inr r"
    using analyze_returns_iff [of e c w] by blast
  define w1 where "w1 = fst (analyze_contract e c w)"
  have step: "analyze_contract e c w = (w1, Inr r)"
    using r by (simp add: w1_def prod_eq_iff)
  have "\<forall>c'\<in>set cs. conforms e c' w1"
    using Cons.prems by (simp add: w1_def conforms_after_analyze)
  from Cons.IH [OF this, of "dict_set acc c r"] step show ?case by simp
qed

lemma analyze_all_step:
  "snd (analyze_contract e c w) = Inr r \<Longrightarrow>
   analyze_all e (c # rest) results w =
     analyze_all e rest (dict_set results c r) (fst (analyze_contract e c w))"
  by (cases "analyze_contract e c w") simp

lemma dict_set_new: "k \<notin> set (map fst rs) \<Longrightarrow> dict_set rs k v = rs @ [(k, v)]"
  by (induction rs k v rule: dict_set.induct) auto

lemma analyze_all_entries:
  "analyze_all e cs acc w = (w', Inr rs) \<Longrightarrow> distinct (map fst acc @ cs) \<Longrightarrow>
   map (\<lambda>(c, r). (c, Inr r)) rs
     = map (\<lambda>(c, r). (c, Inr r)) acc @ map (entry_of e) (visits e cs w)
   \<and> w' = world_after e cs w"
proof (induction cs arbitrary: acc w)
  case Nil
  then show ?case by simp
next
  case (Cons c cs)
  obtain w1 r1 where step: "analyze_contract e c w = (w1, r1)" by (cases "analyze_contract e c w")
  show ?case
  proof (cases r1)
    case (Inl x)
    with Cons.prems step show ?thesis by simp
  next
    case (Inr r)
    from Cons.prems have new: "dict_set acc c r = acc @ [(c, r)]"
      by (simp add: dict_set_new)
    with Cons.prems step Inr have rest: "analyze_all e cs (acc @ [(c, r)]) w1 = (w', Inr rs)"
      by simp
    from Cons.prems have "distinct (map fst (acc @ [(c, r)]) @ cs)" by simp
    from Cons.IH [OF rest this] step Inr show ?thesis
      by (simp add: entry_of_def)
  qed
qed

lemma print_summary_fields [simp]:
  "fs (print_summary rs w) = fs w" "procs (print_summary rs w) = procs w"
  "console (print_summary rs w) = console w @ map (\<lambda>(c, r). summary_line c r) rs"
  by (induction rs w rule: print_summary.induct) simp_all

lemma report_sections_concat:
  "report_sections rs = concat (map (\<lambda>(c, r). report_section c r) rs)"
  by (induction rs rule: report_sections.induct) simp_all

lemma finish_fields:
  "fs (finish rs w) = (fs w)(output_file \<mapsto> report_text rs)"
  "procs (finish rs w) = procs w"
  "console (finish rs w) =
     console w @ [10 # border, msg_summary, border @ [10]]
       @ map (\<lambda>(c, r). summary_line c r) rs @ [msg_saved @ output_file]"
  by (simp_all add: finish_def Let_def)

lemma distinct_CONTRACTS: "distinct CONTRACTS"
  by (simp add: CONTRACTS_def py_def)

subsection \<open>A descriptor that is ready for the analyzer\<close>

lemma analyze_ready_result:
  assumes "ready e n w d b"
  shows "snd (analyze_contract e n w) =
     Inr (case fate e n b (deployed_of d) w of
            NoSuchBinary \<Rightarrow> None
          | LaunchError msg \<Rightarrow> None
          | ChildExits seconds out err rc \<Rightarrow>
              if seconds \<le> 90 then snd (classify (out @ err) rc w) else Some (py ''Timeout'')
          | ChildHangs \<Rightarrow> Some (py ''Timeout'')
          | DecodeFails seconds rc msg \<Rightarrow>
              if seconds \<le> 90 then None else Some (py ''Timeout''))"
proof -
  from assms have "analyze_contract e n w =
     (fst (run_mythril e (temp_file n) (JString b) (deployed_of d)
             (write_file (temp_file n) b (write_file (temp_file n) [] (banner n w)))),
      Inr (snd (run_mythril e (temp_file n) (JString b) (deployed_of d)
             (write_file (temp_file n) b (write_file (temp_file n) [] (banner n w))))))"
    by (simp add: ready_def analyze_runs)
  then show ?thesis
    by (simp add: run_mythril_result fate_def launch_world_def classify_def
        split: behaviour.splits)
qed

lemma analyze_ready_procs:
  assumes "ready e n w d b"
  shows "procs (fst (analyze_contract e n w)) =
     procs w @ Invoked (build_cmd (JString b) (deployed_of d)) #
       (case fate e n b (deployed_of d) w of
          NoSuchBinary \<Rightarrow> []
        | LaunchError msg \<Rightarrow> []
        | ChildExits seconds out err rc \<Rightarrow>
            if seconds \<le> 90 then [Started, Exited rc] else [Started, Killed]
        | ChildHangs \<Rightarrow> [Started, Killed]
        | DecodeFails seconds rc msg \<Rightarrow>
            if seconds \<le> 90 then [Started, Exited rc] else [Started, Killed])"
  using assms by (simp add: ready_def analyze_runs run_mythril_procs fate_def launch_world_def)

lemma analyze_ready_fs:
  assumes "ready e n w d b"
  shows "fs (fst (analyze_contract e n w)) = (fs w)(temp_file n := None)"
  using assms by (simp add: ready_def analyze_runs)

lemma analyze_ready_console:
  assumes "ready e n w d b"
  shows "console (fst (analyze_contract e n w)) =
     console (launch_world n b (deployed_of d) w) @
       (case fate e n b (deployed_of d) w of
          NoSuchBinary \<Rightarrow> [msg_not_installed, msg_install_hint]
        | LaunchError msg \<Rightarrow> [msg_run_error @ msg]
        | ChildExits seconds out err rc \<Rightarrow>
            if seconds \<le> 90
            then drop (length (console w)) (console (fst (classify (out @ err) rc w)))
            else [msg_timeout]
        | ChildHangs \<Rightarrow> [msg_timeout]
        | DecodeFails seconds rc msg \<Rightarrow>
            if seconds \<le> 90 then [msg_run_error @ msg] else [msg_timeout])"
  using assms
  by (simp add: ready_def analyze_runs run_mythril_console fate_def launch_world_def classify_def
      split: behaviour.splits)

lemma failure_outcome:
  "failure_of e n w = Some f \<Longrightarrow> snd (analyze_contract e n w) = Inr (outcome_value f)"
proof (cases "load_artifact e n w")
  case None
  assume "failure_of e n w = Some f"
  with None show ?thesis by (simp add: failure_of_def analyze_not_found)
next
  case (Some l)
  assume f: "failure_of e n w = Some f"
  show ?thesis
  proof (cases l)
    case (Inl msg)
    with Some f show ?thesis by (auto simp: failure_of_def analyze_read_error)
  next
    case (Inr j)
    with Some f obtain d where j: "j = JObject d"
      by (cases j) (simp_all add: failure_of_def)
    show ?thesis
    proof (cases "\<not> truthy (bytecode_of d) \<or> bytecode_of d = JString (py ''0x'')")
      case True
      with Some Inr j f show ?thesis by (auto simp: failure_of_def analyze_empty)
    next
      case False
      with Some Inr j f obtain b where b: "bytecode_of d = JString b"
        by (cases "bytecode_of d") (simp_all add: failure_of_def)
      with False Some Inr j f have takes: "scratch_takes e n b"
        by (auto simp: failure_of_def split: if_splits)
      with False Some Inr j b have rdy: "ready e n w d b" by (auto simp: ready_def)
      from f Some Inr j False b takes show ?thesis
        by (cases "fate e n b (deployed_of d) w")
          (auto simp: failure_of_def analyze_ready_result [OF rdy] split: if_splits)
    qed
  qed
qed

subsection \<open>The example worlds\<close>

lemma load_one_artifact [simp]:
  "load_artifact (env_with d beh) (py ''MOEToken'') one_artifact = Some (Inr (JObject d))"
  by (simp add: load_artifact_def env_with_def one_artifact_def)

lemma load_no_files [simp]: "load_artifact e n no_files = None"
  by (simp add: load_artifact_def no_files_def)

lemma fate_env_with [simp]: "fate (env_with d beh) n b dep w = beh"
  by (simp add: fate_def env_with_def)

lemma scratch_takes_env_with [simp]: "scratch_takes (env_with d beh) n b = encodable b"
  by (simp add: scratch_takes_def env_with_def)

lemma encodable_examples [simp]:
  "encodable (py ''0x6080'')" "\<not> encodable (py ''0x6080'' @ [0xD800])"
  by (simp_all add: encodable_def py_def)

lemma example_fields [simp]:
  "bytecode_of both_fields = JString (py ''0x6080'')"
  "deployed_of both_fields = JString (py ''0x6001'')"
  "bytecode_of empty_runtime = JString (py ''0x6080'')"
  "deployed_of empty_runtime = JString []"
  "bytecode_of no_code = JString (py ''0x'')"
  "bytecode_of number_code = JInt 123"
  "bytecode_of surrogate_code = JString (py ''0x6080'' @ [0xD800])"
  by (simp_all add: bytecode_of_def deployed_of_def dict_get_def both_fields_def
      empty_runtime_def no_code_def number_code_def surrogate_code_def py_def)

lemma ready_examples [simp]:
  "ready (env_with both_fields beh) (py ''MOEToken'') one_artifact both_fields (py ''0x6080'')"
  "ready (env_with empty_runtime beh) (py ''MOEToken'') one_artifact empty_runtime (py ''0x6080'')"
  by (simp_all add: ready_def) (simp_all add: py_def)

lemma markers_absent:
  "\<not> str_contains (py ''SWC'') (py ''Timeout'')"
  "\<not> str_contains (py ''Issue'') (py ''Timeout'')"
  "\<not> str_contains (py ''SWC'') (py ''No issues found'')"
  "\<not> str_contains (py ''Issue'') (py ''No issues found'')"
  "\<not> str_contains (py ''SWC'') []"
  "\<not> str_contains (py ''Issue'') []"
  "\<not> str_contains (py ''No issues'') []"
  by (simp_all add: py_def)

subsection \<open>The whole run\<close>

lemma conforms_same_files: "fs w' = fs w \<Longrightarrow> conforms e c w' = conforms e c w"
  by (simp add: conforms_def load_artifact_def)

lemma run_title_fields [simp]:
  "fs (run_title w) = fs w" "procs (run_title w) = procs w"
  "console (run_title w) = console w @ [10 # border, msg_title, border]"
  by (simp_all add: run_title_def)

lemma loop_returns:
  assumes "\<forall>c\<in>set CONTRACTS. conforms e c w"
  shows "\<exists>rs w2. analyze_all e CONTRACTS [] (run_title w) = (w2, Inr rs)"
proof -
  have "conforms e c (run_title w) = conforms e c w" for c
    by (rule conforms_same_files) simp
  with assms have "\<forall>c\<in>set CONTRACTS. conforms e c (run_title w)"
    by simp
  then show ?thesis
    using analyze_all_returns by blast
qed

lemma main_after_loop:
  assumes "analyze_all e CONTRACTS [] (run_title w) = (w2, Inr rs)"
  shows "main e w = (finish rs w2, None)" and "map fst rs = CONTRACTS"
proof -
  from assms show "main e w = (finish rs w2, None)"
    by (simp add: main_def Let_def)
  from assms show "map fst rs = CONTRACTS"
    using analyze_all_keys [of e CONTRACTS "[]" "run_title w" w2 rs] distinct_CONTRACTS by simp
qed

lemma main_completes:
  assumes "\<forall>c\<in>set CONTRACTS. conforms e c w"
  shows "\<exists>rs w2. main e w = (finish rs w2, None) \<and> map fst rs = CONTRACTS"
  using loop_returns [OF assms] main_after_loop by blast

lemma conforms_no_files [simp]: "conforms e c no_files"
  by (simp add: conforms_def)

lemma artifact_path_inj [simp]: "(artifact_path a = artifact_path b) = (a = b)"
proof
  assume eq: "artifact_path a = artifact_path b"
  then have "length (artifact_path a) = length (artifact_path b)" by simp
  then have "length a = length b" by (simp add: artifact_path_def)
  with eq show "a = b" by (simp add: artifact_path_def)
qed simp

lemma contract_names_differ [simp]:
  "py ''DepositContract'' \<noteq> py ''MOEToken''"
  "py ''VestingWalletFactory'' \<noteq> py ''MOEToken''"
  "py ''StageBasedVestingWallet'' \<noteq> py ''MOEToken''"
  by (simp_all add: py_def)

lemma load_other_contract:
  "n \<noteq> py ''MOEToken'' \<Longrightarrow> load_artifact e n one_artifact = None"
  by (simp add: load_artifact_def one_artifact_def)

lemma conforms_one_artifact [simp]:
  "conforms (env_with both_fields beh) (py ''MOEToken'') one_artifact"
  "conforms (env_with both_fields beh) (py ''DepositContract'') one_artifact"
  "conforms (env_with both_fields beh) (py ''VestingWalletFactory'') one_artifact"
  "conforms (env_with both_fields beh) (py ''StageBasedVestingWallet'') one_artifact"
  by (simp_all add: conforms_def load_other_contract)

subsection \<open>The command line\<close>

lemma build_cmd_payload:
  "build_cmd bc dep ! 2 = JString (py ''--bin-runtime'')"
  "build_cmd bc dep ! 3 = (if truthy dep \<and> dep \<noteq> JString (py ''0x'') then dep else bc)"
  by (simp_all add: build_cmd_def)

section \<open>The claims\<close>

text \<open>
  C1. Whatever the exit code, and whether or not the text also says \<open>No issues\<close>, a
  captured output that contains \<open>SWC\<close> or \<open>Issue\<close> is returned in full by the
  classifier, it is shown in the summary with the status for issues found and written
  to the report as it is; and when the child of a contract exits in time with such an
  output on its two streams, that output is the outcome of the contract.
\<close>

theorem issues_found_takes_precedence:
  assumes "str_contains (py ''SWC'') output \<or> str_contains (py ''Issue'') output"
  shows "snd (classify output rc w) = Some output
       \<and> status_of (Some output) = status_issues
       \<and> report_body (Some output) = output
       \<and> (ready e n w d b \<and> fate e n b (deployed_of d) w = ChildExits seconds out err rc
            \<and> seconds \<le> 90 \<and> out @ err = output
          \<longrightarrow> snd (analyze_contract e n w) = Inr (Some output))"
proof -
  have res: "snd (classify output rc w) = Some output"
    using assms by (simp add: classify_def)
  have "output \<noteq> py ''Timeout''" "output \<noteq> py ''No issues found''" "output \<noteq> []"
    using assms markers_absent by auto
  then have "status_of (Some output) = status_issues" "report_body (Some output) = output"
    using assms by (simp_all add: status_of_def report_body_def)
  moreover have "snd (analyze_contract e n w) = Inr (Some output)"
    if "ready e n w d b" "fate e n b (deployed_of d) w = ChildExits seconds out err rc"
       "seconds \<le> 90" "out @ err = output"
    using that res by (simp add: analyze_ready_result)
  ultimately show ?thesis using res by blast
qed

theorem issues_found_takes_precedence_witness:
  "(str_contains (py ''SWC'') (py ''No issues found with SWC'')
      \<or> str_contains (py ''Issue'') (py ''No issues found with SWC''))
   \<and> str_contains (py ''No issues'') (py ''No issues found with SWC'')
   \<and> snd (classify (py ''No issues found with SWC'') 0 one_artifact)
       = Some (py ''No issues found with SWC'')
   \<and> status_of (Some (py ''No issues found with SWC'')) = status_issues
   \<and> snd (analyze_contract
             (env_with both_fields (ChildExits 5 (py ''No issues found '') (py ''with SWC'') 0))
             (py ''MOEToken'') one_artifact)
       = Inr (Some (py ''No issues found with SWC''))"
proof -
  have h: "str_contains (py ''SWC'') (py ''No issues found with SWC'')
      \<or> str_contains (py ''Issue'') (py ''No issues found with SWC'')"
    by (simp add: py_def)
  have c: "str_contains (py ''No issues'') (py ''No issues found with SWC'')"
    by (simp add: py_def)
  have j: "py ''No issues found '' @ py ''with SWC'' = py ''No issues found with SWC''"
    by (simp add: py_def)
  show ?thesis
    using h c j
      issues_found_takes_precedence [OF h, of 0 one_artifact
        "env_with both_fields (ChildExits 5 (py ''No issues found '') (py ''with SWC'') 0)"
        "py ''MOEToken''" both_fields "py ''0x6080''" 5 "py ''No issues found ''"
        "py ''with SWC''"]
    by simp
qed

text \<open>
  C2, as the claim states it, fails: in the descriptor \<open>empty_runtime\<close> the field
  \<open>bytecode\<close> is present and is not \<open>0x\<close>, the field \<open>deployedBytecode\<close> is present and is
  not \<open>0x\<close> (it is the empty string), and yet the word after \<open>--bin-runtime\<close> on the
  command line of the call is the value of \<open>bytecode\<close>, not that of \<open>deployedBytecode\<close>.
\<close>

theorem payload_of_empty_runtime_counterexample:
  "load_artifact (env_with empty_runtime (ChildExits 1 [] [] 0)) (py ''MOEToken'') one_artifact
     = Some (Inr (JObject empty_runtime))
   \<and> map_of empty_runtime (py ''bytecode'') = Some (JString (py ''0x6080''))
   \<and> JString (py ''0x6080'') \<noteq> JString (py ''0x'')
   \<and> map_of empty_runtime (py ''deployedBytecode'') = Some (JString [])
   \<and> JString [] \<noteq> JString (py ''0x'')
   \<and> procs (fst (analyze_contract (env_with empty_runtime (ChildExits 1 [] [] 0))
         (py ''MOEToken'') one_artifact))
       = [Invoked (build_cmd (JString (py ''0x6080'')) (JString [])), Started, Exited 0]
   \<and> build_cmd (JString (py ''0x6080'')) (JString []) ! 2 = JString (py ''--bin-runtime'')
   \<and> build_cmd (JString (py ''0x6080'')) (JString []) ! 3 = JString (py ''0x6080'')
   \<and> build_cmd (JString (py ''0x6080'')) (JString []) ! 3 \<noteq> JString []"
proof -
  have fields: "map_of empty_runtime (py ''bytecode'') = Some (JString (py ''0x6080''))"
    "map_of empty_runtime (py ''deployedBytecode'') = Some (JString [])"
    by (simp_all add: empty_runtime_def py_def)
  have ne: "JString (py ''0x6080'') \<noteq> JString (py ''0x'')" "JString [] \<noteq> JString (py ''0x'')"
    "JString (py ''0x6080'') \<noteq> JString []"
    by (simp_all add: py_def)
  have "procs (fst (analyze_contract (env_with empty_runtime (ChildExits 1 [] [] 0))
         (py ''MOEToken'') one_artifact))
       = [Invoked (build_cmd (JString (py ''0x6080'')) (JString [])), Started, Exited 0]"
    using analyze_ready_procs [OF ready_examples(2), of "ChildExits 1 [] [] 0"]
    by (simp add: one_artifact_def)
  with fields ne show ?thesis by (simp add: build_cmd_payload)
qed

text \<open>
  C2, amended. When the artifact of a contract loads as an object whose \<open>bytecode\<close> is a
  string, neither empty nor \<open>0x\<close>, the command line that the script builds has after
  \<open>--bin-runtime\<close> the value of \<open>bytecode\<close> if \<open>deployedBytecode\<close> is missing, is \<open>0x\<close> or
  is a value that Python takes for false (the empty string among them), and the value of
  \<open>deployedBytecode\<close> otherwise. \<open>subprocess.run\<close> is called with this command line when
  the scratch file takes the bytecode; it is not called at all when it does not.
\<close>

theorem payload_is_runtime_code_unless_empty:
  assumes "load_artifact e n w = Some (Inr (JObject d))"
    and "map_of d (py ''bytecode'') = Some (JString b)" and "b \<noteq> []" and "b \<noteq> py ''0x''"
  shows "build_cmd (JString b) (deployed_of d) ! 2 = JString (py ''--bin-runtime'')
       \<and> build_cmd (JString b) (deployed_of d) ! 3
           = (case map_of d (py ''deployedBytecode'') of
                None \<Rightarrow> JString b
              | Some v \<Rightarrow> if truthy v \<and> v \<noteq> JString (py ''0x'') then v else JString b)
       \<and> (if scratch_takes e n b
            then \<exists>evs. procs (fst (analyze_contract e n w))
                   = procs w @ Invoked (build_cmd (JString b) (deployed_of d)) # evs
            else procs (fst (analyze_contract e n w)) = procs w)"
proof -
  from assms have bc: "bytecode_of d = JString b"
    by (simp add: bytecode_of_def dict_get_def)
  have flag: "build_cmd (JString b) (deployed_of d) ! 2 = JString (py ''--bin-runtime'')"
    by (rule build_cmd_payload(1))
  have "(if truthy (deployed_of d) \<and> deployed_of d \<noteq> JString (py ''0x'')
              then deployed_of d else JString b)
      = (case map_of d (py ''deployedBytecode'') of
           None \<Rightarrow> JString b
         | Some v \<Rightarrow> if truthy v \<and> v \<noteq> JString (py ''0x'') then v else JString b)"
    by (simp add: deployed_of_def dict_get_def split: option.splits)
  then have payload: "build_cmd (JString b) (deployed_of d) ! 3
      = (case map_of d (py ''deployedBytecode'') of
           None \<Rightarrow> JString b
         | Some v \<Rightarrow> if truthy v \<and> v \<noteq> JString (py ''0x'') then v else JString b)"
    by (simp only: build_cmd_payload(2))
  have call: "if scratch_takes e n b
            then \<exists>evs. procs (fst (analyze_contract e n w))
                   = procs w @ Invoked (build_cmd (JString b) (deployed_of d)) # evs
            else procs (fst (analyze_contract e n w)) = procs w"
  proof (cases "scratch_takes e n b")
    case True
    with assms bc have "ready e n w d b"
      by (simp add: ready_def)
    then show ?thesis
      using True by (simp add: analyze_ready_procs)
  next
    case False
    from bc assms have t: "truthy (bytecode_of d)" "bytecode_of d \<noteq> JString (py ''0x'')"
      by simp_all
    show ?thesis
    proof (cases "creatable e (temp_file n)")
      case True
      with False have "\<not> encodable b" by (simp add: scratch_takes_def)
      with assms bc True False show ?thesis
        by (simp add: analyze_not_encodable)
    next
      case c: False
      with assms t False show ?thesis
        by (simp add: analyze_not_creatable)
    qed
  qed
  from flag payload call show ?thesis by (intro conjI)
qed

theorem payload_is_runtime_code_unless_empty_witness:
  "load_artifact (env_with both_fields (ChildExits 1 [] [] 0)) (py ''MOEToken'') one_artifact
     = Some (Inr (JObject both_fields))
   \<and> map_of both_fields (py ''bytecode'') = Some (JString (py ''0x6080''))
   \<and> py ''0x6080'' \<noteq> [] \<and> py ''0x6080'' \<noteq> py ''0x''
   \<and> scratch_takes (env_with both_fields (ChildExits 1 [] [] 0)) (py ''MOEToken'')
       (py ''0x6080'')
   \<and> build_cmd (JString (py ''0x6080'')) (JString (py ''0x6001'')) ! 3 = JString (py ''0x6001'')
   \<and> (\<exists>evs. procs (fst (analyze_contract (env_with both_fields (ChildExits 1 [] [] 0))
           (py ''MOEToken'') one_artifact))
         = Invoked (build_cmd (JString (py ''0x6080'')) (JString (py ''0x6001''))) # evs)"
proof -
  have l: "load_artifact (env_with both_fields (ChildExits 1 [] [] 0)) (py ''MOEToken'')
      one_artifact = Some (Inr (JObject both_fields))"
    by simp
  have f: "map_of both_fields (py ''bytecode'') = Some (JString (py ''0x6080''))"
    by (simp add: both_fields_def)
  have g: "map_of both_fields (py ''deployedBytecode'') = Some (JString (py ''0x6001''))"
    by (simp add: both_fields_def py_def)
  have ne: "py ''0x6080'' \<noteq> []" "py ''0x6080'' \<noteq> py ''0x''" "py ''0x6001'' \<noteq> []"
    "py ''0x6001'' \<noteq> py ''0x''"
    by (simp_all add: py_def)
  have takes: "scratch_takes (env_with both_fields (ChildExits 1 [] [] 0)) (py ''MOEToken'')
       (py ''0x6080'')"
    by simp
  have p: "procs one_artifact = []"
    by (simp add: one_artifact_def)
  note inst = payload_is_runtime_code_unless_empty [OF l f ne(1) ne(2)]
  from inst g ne have payload:
    "build_cmd (JString (py ''0x6080'')) (JString (py ''0x6001'')) ! 3 = JString (py ''0x6001'')"
    by simp
  from inst takes p have call:
    "\<exists>evs. procs (fst (analyze_contract (env_with both_fields (ChildExits 1 [] [] 0))
           (py ''MOEToken'') one_artifact))
         = Invoked (build_cmd (JString (py ''0x6080'')) (JString (py ''0x6001''))) # evs"
    by simp
  from l f ne(1) ne(2) takes payload call show ?thesis by (intro conjI)
qed

text \<open>
  C3. Each failure of the taxonomy ends the analysis of its contract with a value, the
  text \<open>Timeout\<close> for a timeout and no text for the others. Whatever outcomes the
  analyses of the contracts return, \<open>main\<close> ends without an exception; the results hold,
  for each contract of \<open>CONTRACTS\<close> in order, the outcome that \<open>analyze_contract\<close>
  returned for it in the world that the analyses before it left; after the last analysis
  the console gets the summary, one line for each entry, and the message that the
  report was saved, and the report file holds the report of these results. And the
  analyses do all return an outcome when the descriptors of the contracts conform to the
  data model, whichever of them are missing, unreadable or empty and whatever becomes of
  the child processes.
\<close>

theorem no_failure_aborts_the_run:
  "(\<forall>n w f. failure_of e n w = Some f
       \<longrightarrow> snd (analyze_contract e n w) = Inr (outcome_value f))
   \<and> (\<forall>rs w2. analyze_all e CONTRACTS [] (run_title w) = (w2, Inr rs)
       \<longrightarrow> main e w = (finish rs w2, None)
           \<and> map fst rs = CONTRACTS
           \<and> map (\<lambda>(c, r). (c, Inr r)) rs = map (entry_of e) (visits e CONTRACTS (run_title w))
           \<and> w2 = world_after e CONTRACTS (run_title w)
           \<and> console (finish rs w2)
               = console w2 @ [10 # border, msg_summary, border @ [10]]
                   @ map (\<lambda>(c, r). summary_line c r) rs @ [msg_saved @ output_file]
           \<and> fs (finish rs w2) output_file = Some (report_text rs))
   \<and> ((\<forall>c\<in>set CONTRACTS. conforms e c w)
       \<longrightarrow> (\<exists>rs w2. analyze_all e CONTRACTS [] (run_title w) = (w2, Inr rs)))"
proof (intro conjI allI impI)
  fix n w f
  assume "failure_of e n w = Some f"
  then show "snd (analyze_contract e n w) = Inr (outcome_value f)"
    by (rule failure_outcome)
next
  fix rs w2
  assume loop: "analyze_all e CONTRACTS [] (run_title w) = (w2, Inr rs)"
  from loop show "main e w = (finish rs w2, None)"
    by (rule main_after_loop(1))
  from loop show "map fst rs = CONTRACTS"
    by (rule main_after_loop(2))
  have tie: "map (\<lambda>(c, r). (c, Inr r)) rs
      = map (\<lambda>(c, r). (c, Inr r)) [] @ map (entry_of e) (visits e CONTRACTS (run_title w))
    \<and> w2 = world_after e CONTRACTS (run_title w)"
    using loop distinct_CONTRACTS by (intro analyze_all_entries) simp_all
  from tie show "map (\<lambda>(c, r). (c, Inr r)) rs
      = map (entry_of e) (visits e CONTRACTS (run_title w))"
    by simp
  from tie show "w2 = world_after e CONTRACTS (run_title w)"
    by simp
  show "console (finish rs w2)
      = console w2 @ [10 # border, msg_summary, border @ [10]]
          @ map (\<lambda>(c, r). summary_line c r) rs @ [msg_saved @ output_file]"
    by (rule finish_fields(3))
  show "fs (finish rs w2) output_file = Some (report_text rs)"
    by (simp add: finish_fields(1))
next
  assume "\<forall>c\<in>set CONTRACTS. conforms e c w"
  then show "\<exists>rs w2. analyze_all e CONTRACTS [] (run_title w) = (w2, Inr rs)"
    by (rule loop_returns)
qed

theorem no_failure_aborts_the_run_witness:
  "conforms (env_with both_fields ChildHangs) (py ''MOEToken'') one_artifact
   \<and> conforms (env_with both_fields ChildHangs) (py ''DepositContract'') one_artifact
   \<and> conforms (env_with both_fields ChildHangs) (py ''VestingWalletFactory'') one_artifact
   \<and> conforms (env_with both_fields ChildHangs) (py ''StageBasedVestingWallet'') one_artifact
   \<and> failure_of (env_with both_fields ChildHangs) (py ''MOEToken'') one_artifact = Some Timeout
   \<and> snd (analyze_contract (env_with both_fields ChildHangs) (py ''MOEToken'') one_artifact)
       = Inr (Some (py ''Timeout''))
   \<and> failure_of (env_with both_fields ChildHangs) (py ''DepositContract'') one_artifact
       = Some NotFound
   \<and> snd (analyze_contract (env_with both_fields ChildHangs) (py ''DepositContract'')
         one_artifact) = Inr None
   \<and> main (env_with both_fields ChildHangs) one_artifact
       = (fst (main (env_with both_fields ChildHangs) one_artifact), None)
   \<and> (\<exists>rs. map fst rs = CONTRACTS
         \<and> map (\<lambda>(c, r). (c, Inr r)) rs
             = map (entry_of (env_with both_fields ChildHangs))
                 (visits (env_with both_fields ChildHangs) CONTRACTS (run_title one_artifact))
         \<and> fs (fst (main (env_with both_fields ChildHangs) one_artifact)) output_file
             = Some (report_text rs))"
proof -
  have all: "\<forall>c\<in>set CONTRACTS. conforms (env_with both_fields ChildHangs) c one_artifact"
    by (simp add: CONTRACTS_def)
  have f1: "failure_of (env_with both_fields ChildHangs) (py ''MOEToken'') one_artifact
      = Some Timeout"
    by (simp add: failure_of_def) (simp add: py_def)
  have f2: "failure_of (env_with both_fields ChildHangs) (py ''DepositContract'') one_artifact
      = Some NotFound"
    by (simp add: failure_of_def load_other_contract)
  note inst = no_failure_aborts_the_run [of "env_with both_fields ChildHangs" one_artifact]
  note converts = inst [THEN conjunct1, rule_format]
  note after_loop = inst [THEN conjunct2, THEN conjunct1, rule_format]
  note returns = inst [THEN conjunct2, THEN conjunct2, rule_format]
  from converts [OF f1] have r1: "snd (analyze_contract (env_with both_fields ChildHangs)
      (py ''MOEToken'') one_artifact) = Inr (Some (py ''Timeout''))"
    by simp
  from converts [OF f2] have r2: "snd (analyze_contract (env_with both_fields ChildHangs)
      (py ''DepositContract'') one_artifact) = Inr None"
    by simp
  from returns all obtain rs w2 where loop:
    "analyze_all (env_with both_fields ChildHangs) CONTRACTS [] (run_title one_artifact)
       = (w2, Inr rs)"
    by blast
  note facts = after_loop [OF loop]
  from facts have m: "main (env_with both_fields ChildHangs) one_artifact = (finish rs w2, None)"
    by (rule conjunct1)
  then have ended: "main (env_with both_fields ChildHangs) one_artifact
       = (fst (main (env_with both_fields ChildHangs) one_artifact), None)"
    by simp
  note keys = facts [THEN conjunct2, THEN conjunct1]
  note tie = facts [THEN conjunct2, THEN conjunct2, THEN conjunct1]
  note report = facts [THEN conjunct2, THEN conjunct2, THEN conjunct2, THEN conjunct2,
      THEN conjunct2]
  from m have "fst (main (env_with both_fields ChildHangs) one_artifact) = finish rs w2"
    by simp
  with report have saved:
    "fs (fst (main (env_with both_fields ChildHangs) one_artifact)) output_file
       = Some (report_text rs)"
    by (simp only:)
  from keys tie saved have "map fst rs = CONTRACTS
         \<and> map (\<lambda>(c, r). (c, Inr r)) rs
             = map (entry_of (env_with both_fields ChildHangs))
                 (visits (env_with both_fields ChildHangs) CONTRACTS (run_title one_artifact))
         \<and> fs (fst (main (env_with both_fields ChildHangs) one_artifact)) output_file
             = Some (report_text rs)"
    by (intro conjI)
  then have run: "\<exists>rs. map fst rs = CONTRACTS
         \<and> map (\<lambda>(c, r). (c, Inr r)) rs
             = map (entry_of (env_with both_fields ChildHangs))
                 (visits (env_with both_fields ChildHangs) CONTRACTS (run_title one_artifact))
         \<and> fs (fst (main (env_with both_fields ChildHangs) one_artifact)) output_file
             = Some (report_text rs)"
    by (rule exI)
  have c: "conforms (env_with both_fields ChildHangs) (py ''MOEToken'') one_artifact"
    "conforms (env_with both_fields ChildHangs) (py ''DepositContract'') one_artifact"
    "conforms (env_with both_fields ChildHangs) (py ''VestingWalletFactory'') one_artifact"
    "conforms (env_with both_fields ChildHangs) (py ''StageBasedVestingWallet'') one_artifact"
    using all by (simp_all add: CONTRACTS_def)
  from c f1 r1 f2 r2 ended run show ?thesis by (intro conjI)
qed




text \<open>
  C5. When the artifact file of a contract does not exist, the analysis of the contract
  returns the outcome without text after the message that names the missing path, no
  call of \<open>subprocess.run\<close> is made and no file is touched; this is the failure
  \<open>NotFound\<close>, and the loop of the run goes on with the next contract.
\<close>

theorem missing_artifact_is_skipped:
  assumes "fs w (artifact_path n) = None"
  shows "failure_of e n w = Some NotFound
       \<and> snd (analyze_contract e n w) = Inr None
       \<and> procs (fst (analyze_contract e n w)) = procs w
       \<and> fs (fst (analyze_contract e n w)) = fs w
       \<and> console (fst (analyze_contract e n w))
           = console (banner n w) @ [msg_no_artifact @ artifact_path n]
       \<and> analyze_all e (n # rest) results w
           = analyze_all e rest (dict_set results n None) (fst (analyze_contract e n w))"
proof -
  from assms have none: "load_artifact e n w = None"
    by (simp add: load_artifact_def)
  then have run: "analyze_contract e n w
      = (print (msg_no_artifact @ artifact_path n) (banner n w), Inr None)"
    by (rule analyze_not_found)
  from none have "failure_of e n w = Some NotFound"
    by (simp add: failure_of_def)
  moreover from run have "analyze_all e (n # rest) results w
      = analyze_all e rest (dict_set results n None) (fst (analyze_contract e n w))"
    by (simp add: analyze_all_step)
  ultimately show ?thesis using run by simp
qed

theorem missing_artifact_is_skipped_witness:
  "fs no_files (artifact_path (py ''DepositContract'')) = None
   \<and> snd (analyze_contract (env_with both_fields ChildHangs) (py ''DepositContract'') no_files)
       = Inr None
   \<and> procs (fst (analyze_contract (env_with both_fields ChildHangs) (py ''DepositContract'')
         no_files)) = []
   \<and> snd (analyze_all (env_with both_fields ChildHangs) [py ''DepositContract''] [] no_files)
       = Inr [(py ''DepositContract'', None)]"
proof -
  have h: "fs no_files (artifact_path (py ''DepositContract'')) = None"
    by (simp add: no_files_def)
  have p: "procs no_files = []"
    by (simp add: no_files_def)
  show ?thesis
    using h p missing_artifact_is_skipped [OF h, of "env_with both_fields ChildHangs" "[]" "[]"]
    by (simp del: analyze_all.simps(2))
qed

text \<open>
  C6. When the artifact of a contract loads as an object in which \<open>bytecode\<close> is
  missing or is the string \<open>0x\<close>, the analysis returns the outcome without text after
  the message that no bytecode was found, no call of \<open>subprocess.run\<close> is made and no
  file is touched; this is the failure \<open>EmptyBytecode\<close>.
\<close>

theorem empty_bytecode_is_skipped:
  assumes "load_artifact e n w = Some (Inr (JObject d))"
    and "map_of d (py ''bytecode'') = None
         \<or> map_of d (py ''bytecode'') = Some (JString (py ''0x''))"
  shows "failure_of e n w = Some EmptyBytecode
       \<and> snd (analyze_contract e n w) = Inr None
       \<and> procs (fst (analyze_contract e n w)) = procs w
       \<and> fs (fst (analyze_contract e n w)) = fs w
       \<and> console (fst (analyze_contract e n w)) = console (banner n w) @ [msg_no_bytecode]"
proof -
  from assms(2) have empty: "\<not> truthy (bytecode_of d) \<or> bytecode_of d = JString (py ''0x'')"
    by (auto simp: bytecode_of_def dict_get_def)
  with assms(1) have run: "analyze_contract e n w = (print msg_no_bytecode (banner n w), Inr None)"
    by (rule analyze_empty)
  from assms(1) empty have "failure_of e n w = Some EmptyBytecode"
    by (simp add: failure_of_def)
  with run show ?thesis by simp
qed

theorem empty_bytecode_is_skipped_witness:
  "load_artifact (env_with no_code ChildHangs) (py ''MOEToken'') one_artifact
     = Some (Inr (JObject no_code))
   \<and> map_of no_code (py ''bytecode'') = Some (JString (py ''0x''))
   \<and> snd (analyze_contract (env_with no_code ChildHangs) (py ''MOEToken'') one_artifact)
       = Inr None
   \<and> procs (fst (analyze_contract (env_with no_code ChildHangs) (py ''MOEToken'')
         one_artifact)) = []
   \<and> fs (fst (analyze_contract (env_with no_code ChildHangs) (py ''MOEToken'') one_artifact))
         (temp_file (py ''MOEToken'')) = None"
proof -
  have h1: "load_artifact (env_with no_code ChildHangs) (py ''MOEToken'') one_artifact
     = Some (Inr (JObject no_code))"
    by simp
  have h2: "map_of no_code (py ''bytecode'') = None
         \<or> map_of no_code (py ''bytecode'') = Some (JString (py ''0x''))"
    by (simp add: no_code_def)
  show ?thesis
    using h1 empty_bytecode_is_skipped [OF h1 h2]
    by (simp add: no_code_def one_artifact_def)
qed

text \<open>
  C7. When the child of a contract is started and is still running after 90 seconds, it
  is killed, the analysis of the contract prints the timeout message and returns the
  text \<open>Timeout\<close>, which the summary shows with the status for a timeout; this is the
  failure \<open>Timeout\<close>, and the loop of the run goes on with the next contract.
\<close>

theorem timeout_kills_the_child_and_the_run_goes_on:
  assumes "ready e n w d b" and "exceeds 90 (fate e n b (deployed_of d) w)"
  shows "failure_of e n w = Some Timeout
       \<and> procs (fst (analyze_contract e n w))
           = procs w @ [Invoked (build_cmd (JString b) (deployed_of d)), Started, Killed]
       \<and> console (fst (analyze_contract e n w))
           = console (launch_world n b (deployed_of d) w) @ [msg_timeout]
       \<and> snd (analyze_contract e n w) = Inr (Some (py ''Timeout''))
       \<and> status_of (Some (py ''Timeout'')) = status_timeout
       \<and> analyze_all e (n # rest) results w
           = analyze_all e rest (dict_set results n (Some (py ''Timeout'')))
               (fst (analyze_contract e n w))"
proof -
  from assms(2) have fate: "fate e n b (deployed_of d) w = ChildHangs
      \<or> (\<exists>s out err rc. fate e n b (deployed_of d) w = ChildExits s out err rc \<and> 90 < s)
      \<or> (\<exists>s rc msg. fate e n b (deployed_of d) w = DecodeFails s rc msg \<and> 90 < s)"
    by (cases "fate e n b (deployed_of d) w") simp_all
  then have res: "snd (analyze_contract e n w) = Inr (Some (py ''Timeout''))"
    using assms(1) by (auto simp: analyze_ready_result)
  from fate have ev: "procs (fst (analyze_contract e n w))
      = procs w @ [Invoked (build_cmd (JString b) (deployed_of d)), Started, Killed]"
    using assms(1) by (auto simp: analyze_ready_procs)
  from fate have out: "console (fst (analyze_contract e n w))
      = console (launch_world n b (deployed_of d) w) @ [msg_timeout]"
    using assms(1) by (auto simp: analyze_ready_console)
  from assms have fail: "failure_of e n w = Some Timeout"
    by (cases "fate e n b (deployed_of d) w") (auto simp: failure_of_def ready_def)
  have st: "status_of (Some (py ''Timeout'')) = status_timeout"
    by (simp add: status_of_def)
  from res have step: "analyze_all e (n # rest) results w
      = analyze_all e rest (dict_set results n (Some (py ''Timeout'')))
          (fst (analyze_contract e n w))"
    by (rule analyze_all_step)
  from fail ev out res st step show ?thesis by blast
qed

theorem timeout_kills_the_child_and_the_run_goes_on_witness:
  "ready (env_with both_fields (ChildExits 120 (py ''SWC-101'') [] 0)) (py ''MOEToken'')
     one_artifact both_fields (py ''0x6080'')
   \<and> exceeds 90 (ChildExits 120 (py ''SWC-101'') [] 0)
   \<and> procs (fst (analyze_contract (env_with both_fields (ChildExits 120 (py ''SWC-101'') [] 0))
         (py ''MOEToken'') one_artifact))
       = [Invoked (build_cmd (JString (py ''0x6080'')) (JString (py ''0x6001''))),
          Started, Killed]
   \<and> snd (analyze_contract (env_with both_fields (ChildExits 120 (py ''SWC-101'') [] 0))
         (py ''MOEToken'') one_artifact) = Inr (Some (py ''Timeout''))
   \<and> snd (analyze_all (env_with both_fields (ChildExits 120 (py ''SWC-101'') [] 0))
         [py ''MOEToken''] [] one_artifact) = Inr [(py ''MOEToken'', Some (py ''Timeout''))]"
proof -
  have r: "ready (env_with both_fields (ChildExits 120 (py ''SWC-101'') [] 0)) (py ''MOEToken'')
     one_artifact both_fields (py ''0x6080'')"
    by simp
  have x: "exceeds 90 (fate (env_with both_fields (ChildExits 120 (py ''SWC-101'') [] 0))
      (py ''MOEToken'') (py ''0x6080'') (deployed_of both_fields) one_artifact)"
    by simp
  have p: "procs one_artifact = []"
    by (simp add: one_artifact_def)
  show ?thesis
    using r p timeout_kills_the_child_and_the_run_goes_on [OF r x, of "[]" "[]"]
    by (simp del: analyze_all.simps(2))
qed




text \<open>
  C9, as the claim states it, fails: a child that exits with nothing on its streams and
  return code 1 gives \<open>MOEToken\<close> the outcome with the empty text, an outcome for manual
  review; the report written for these results holds in the section of \<open>MOEToken\<close> the
  placeholder of a failed analysis, not the (empty) text of the outcome.
\<close>

theorem report_of_empty_text_counterexample:
  "snd (classify [] 1 no_files) = Some []
   \<and> status_of (Some []) = status_review
   \<and> fs (finish [(py ''MOEToken'', Some [])] no_files) output_file
       = Some (report_header @ section_frame (py ''MOEToken'') @ report_failed @ [10, 10])
   \<and> report_header @ section_frame (py ''MOEToken'') @ report_failed @ [10, 10]
       \<noteq> report_header @ section_frame (py ''MOEToken'') @ [] @ [10, 10]"
proof -
  have res: "snd (classify [] 1 no_files) = Some []"
    by (simp add: classify_def py_def)
  have "[] \<noteq> py ''Timeout''" "[] \<noteq> py ''No issues found''"
    by (simp_all add: py_def)
  then have st: "status_of (Some []) = status_review"
    by (simp add: status_of_def) (simp add: py_def)
  have written: "fs (finish [(py ''MOEToken'', Some [])] no_files) output_file
       = Some (report_header @ section_frame (py ''MOEToken'') @ report_failed @ [10, 10])"
    by (simp add: finish_fields report_text_def report_section_def section_frame_def
        report_body_def)
  have differ: "report_header @ section_frame (py ''MOEToken'') @ report_failed @ [10, 10]
       \<noteq> report_header @ section_frame (py ''MOEToken'') @ [] @ [10, 10]"
    by (simp add: report_failed_def)
  from res st written differ show ?thesis by (intro conjI)
qed

text \<open>
  C9, amended. Whatever the results and whatever the report file held before, the file
  holds after the run the header followed by one section for each entry of the results,
  in their order, and nothing else. A section is the frame with the name of the
  contract, then the text of the outcome when it has one that is not empty, and the
  placeholder of a failed analysis when the outcome has no text or an empty one. When
  \<open>main\<close> ends without an exception, the entries are those of \<open>CONTRACTS\<close>, in that
  order.
\<close>

theorem report_has_one_section_per_contract:
  "fs (finish results w) output_file = Some (report_text results)
   \<and> report_text results
       = report_header @ concat (map (\<lambda>(c, r). report_section c r) results)
   \<and> (\<forall>c t. t \<noteq> [] \<longrightarrow> report_section c (Some t) = section_frame c @ t @ [10, 10])
   \<and> (\<forall>c. report_section c (Some []) = section_frame c @ report_failed @ [10, 10])
   \<and> (\<forall>c. report_section c None = section_frame c @ report_failed @ [10, 10])
   \<and> (main e w0 = (w', None)
        \<longrightarrow> (\<exists>rs. map fst rs = CONTRACTS \<and> fs w' output_file = Some (report_text rs)))"
proof -
  have written: "fs (finish results w) output_file = Some (report_text results)"
    by (simp add: finish_fields)
  have shape: "report_text results
       = report_header @ concat (map (\<lambda>(c, r). report_section c r) results)"
    by (simp add: report_text_def report_sections_concat)
  have some: "\<forall>c t. t \<noteq> [] \<longrightarrow> report_section c (Some t) = section_frame c @ t @ [10, 10]"
    by (simp add: report_section_def section_frame_def report_body_def)
  have empty: "\<forall>c. report_section c (Some []) = section_frame c @ report_failed @ [10, 10]"
    by (simp add: report_section_def section_frame_def report_body_def)
  have none: "\<forall>c. report_section c None = section_frame c @ report_failed @ [10, 10]"
    by (simp add: report_section_def section_frame_def report_body_def)
  have run: "main e w0 = (w', None)
        \<longrightarrow> (\<exists>rs. map fst rs = CONTRACTS \<and> fs w' output_file = Some (report_text rs))"
  proof
    assume m: "main e w0 = (w', None)"
    obtain w2 r where loop: "analyze_all e CONTRACTS [] (run_title w0) = (w2, r)"
      by (cases "analyze_all e CONTRACTS [] (run_title w0)")
    with m obtain rs where r: "r = Inr rs" and w': "w' = finish rs w2"
      by (cases r) (auto simp: main_def Let_def)
    from loop r have "map fst rs = CONTRACTS"
      by (simp add: main_after_loop(2))
    with w' show "\<exists>rs. map fst rs = CONTRACTS \<and> fs w' output_file = Some (report_text rs)"
      by (auto simp: finish_fields)
  qed
  from written shape some empty none run show ?thesis by (intro conjI)
qed

theorem report_has_one_section_per_contract_witness:
  "py ''No issues found'' \<noteq> []
   \<and> fs (finish [(py ''MOEToken'', Some (py ''No issues found'')), (py ''DepositContract'', None)]
         (write_file output_file (py ''old'') no_files)) output_file
     = Some (report_header
          @ section_frame (py ''MOEToken'') @ py ''No issues found'' @ [10, 10]
          @ section_frame (py ''DepositContract'') @ report_failed @ [10, 10])
   \<and> main (env_with both_fields ChildHangs) no_files
       = (fst (main (env_with both_fields ChildHangs) no_files), None)
   \<and> (\<exists>rs. map fst rs = CONTRACTS
         \<and> fs (fst (main (env_with both_fields ChildHangs) no_files)) output_file
             = Some (report_text rs))"
proof -
  have t: "py ''No issues found'' \<noteq> []" by (simp add: py_def)
  have "\<exists>rs w2. main (env_with both_fields ChildHangs) no_files = (finish rs w2, None)
      \<and> map fst rs = CONTRACTS"
    by (rule main_completes) simp
  then have m: "main (env_with both_fields ChildHangs) no_files
       = (fst (main (env_with both_fields ChildHangs) no_files), None)"
    by auto
  note inst = report_has_one_section_per_contract
      [where results
          = "[(py ''MOEToken'', Some (py ''No issues found'')), (py ''DepositContract'', None)]"
        and w = "write_file output_file (py ''old'') no_files"
        and e = "env_with both_fields ChildHangs" and ?w0.0 = no_files
        and w' = "fst (main (env_with both_fields ChildHangs) no_files)"]
  from inst m have run: "\<exists>rs. map fst rs = CONTRACTS
         \<and> fs (fst (main (env_with both_fields ChildHangs) no_files)) output_file
             = Some (report_text rs)"
    by blast
  from inst t have written: "fs (finish
        [(py ''MOEToken'', Some (py ''No issues found'')), (py ''DepositContract'', None)]
         (write_file output_file (py ''old'') no_files)) output_file
     = Some (report_header
          @ section_frame (py ''MOEToken'') @ py ''No issues found'' @ [10, 10]
          @ section_frame (py ''DepositContract'') @ report_failed @ [10, 10])"
    by simp
  from t written m run show ?thesis by blast
qed

text \<open>
  C10. A child that exits in time with nothing on either stream and a return code other
  than zero gives the outcome with the empty text. The summary shows it with the status
  for manual review, which is not the status of a failure; the report writes for it the
  placeholder of a failed analysis, the same section as for an outcome without text.
\<close>

theorem empty_output_is_reviewed_and_reported_failed:
  assumes "rc \<noteq> 0"
  shows "snd (classify [] rc w) = Some []
       \<and> status_of (Some []) = status_review
       \<and> status_of None = status_failed
       \<and> status_review \<noteq> status_failed
       \<and> report_body (Some []) = report_failed
       \<and> report_section c (Some []) = report_section c None
       \<and> (ready e n w d b \<and> fate e n b (deployed_of d) w = ChildExits seconds [] [] rc
            \<and> seconds \<le> 90
          \<longrightarrow> snd (analyze_contract e n w) = Inr (Some []))"
proof -
  have res: "snd (classify [] rc w) = Some []"
    using assms by (simp add: classify_def py_def)
  have "[] \<noteq> py ''Timeout''" "[] \<noteq> py ''No issues found''"
    by (simp_all add: py_def)
  then have st: "status_of (Some []) = status_review"
    by (simp add: status_of_def) (simp add: py_def)
  have ne: "status_review \<noteq> status_failed"
    by (simp add: status_review_def status_failed_def)
  have "snd (analyze_contract e n w) = Inr (Some [])"
    if "ready e n w d b" "fate e n b (deployed_of d) w = ChildExits seconds [] [] rc"
       "seconds \<le> 90"
    using that res by (simp add: analyze_ready_result)
  with res st ne show ?thesis
    by (simp add: status_of_def report_body_def report_section_def)
qed

theorem empty_output_is_reviewed_and_reported_failed_witness:
  "(1::int) \<noteq> 0
   \<and> snd (classify [] 1 one_artifact) = Some []
   \<and> status_of (Some []) = status_review
   \<and> report_body (Some []) = report_failed
   \<and> snd (analyze_contract (env_with both_fields (ChildExits 3 [] [] 1)) (py ''MOEToken'')
         one_artifact) = Inr (Some [])"
proof -
  have h: "(1::int) \<noteq> 0" by simp
  show ?thesis
    using h empty_output_is_reviewed_and_reported_failed [OF h, where w = one_artifact
        and e = "env_with both_fields (ChildExits 3 [] [] 1)" and n = "py ''MOEToken''"
        and d = both_fields and b = "py ''0x6080''" and seconds = 3]
    by simp
qed

end
